theory Spec2Isabelle
  imports Main "HOL-Library.Sublist"
begin

section \<open>Go values shared by the request executor and the deletion verifier\<close>

text \<open>
  A Go \<open>error\<close> is modelled by its message, and \<open>nil\<close> by \<open>None\<close>. A
  \<open>*http.Response\<close> is a record of the two fields the provider reads; the body type
  is left open, since the provider only hands bodies to \<open>encoding/json\<close>. Every call
  that the provider makes into \<open>net/http\<close> yields a pair (response, error), either of
  which may be \<open>nil\<close>; dereferencing a \<open>nil\<close> response panics.
\<close>

type_synonym go_error = string

record 'b Response =
  StatusCode :: nat
  Body :: 'b

type_synonym 'b exchange = "'b Response option \<times> go_error option"

datatype go_context = CtxLive | CtxDone

text \<open>
  The observable effects of a run, in program order: a request that was issued (method and
  URL), a request that was built and not sent (method and URL), a blocking
  \<open>time.Sleep\<close> (in seconds), and the closing of the body acquired by the request with
  the given number. A run returns a value, panics, or is \<open>Blocked\<close>: it waits for a
  signal and has not returned.
\<close>

datatype effect = Sent string string | Built string string | Slept nat | Closed nat

datatype 'a outcome = Returned 'a | Panicked | Blocked

definition StatusOK :: nat where "StatusOK = 200"
definition StatusForbidden :: nat where "StatusForbidden = 403"
definition StatusNotFound :: nat where "StatusNotFound = 404"
definition StatusTooManyRequests :: nat where "StatusTooManyRequests = 429"
definition MethodGet :: string where "MethodGet = ''GET''"

fun is_Sent :: "effect \<Rightarrow> bool" where
  "is_Sent (Sent m u) = True"
| "is_Sent e = False"

fun is_Slept :: "effect \<Rightarrow> bool" where
  "is_Slept (Slept d) = True"
| "is_Slept e = False"

fun is_Built :: "effect \<Rightarrow> bool" where
  "is_Built (Built m u) = True"
| "is_Built e = False"

section \<open>The retrying request executor (helpers.go, HttpRetry)\<close>

text \<open>
  As it is written, the function talks to no upstream. Each iteration of its loop makes one
  call, \<open>http.NewRequestWithContext(ctx, http.MethodGet, url, nil)\<close> on line 87, which
  builds a request and sends nothing; the function returns \<open>*Request\<close>, and the callers
  of this form send what they get themselves, once (resource_group.go, lines 116 to 122).
  \<open>new_request\<close> is that library call, from context, method, URL and body to a request
  or an error; it is the same call in every iteration. The loop passes
  \<open>http.MethodGet\<close> and a \<open>nil\<close> body whatever \<open>method\<close> and \<open>body\<close> the caller
  supplied.

  Line 88 compares \<open>httpReq.StatusCode\<close> with 429. A request of \<open>net/http\<close> has no
  such field, and the file does not compile; what the test reads is therefore a parameter,
  \<open>status_of\<close>, a function of the request that was built. The rest of lines 86 to 93 is
  modelled as it stands: at most \<open>attempts\<close> iterations, a \<open>break\<close> when the test
  finds another value than 429, a sleep of \<open>sleep\<close> seconds at the end of every
  iteration that does not break. Line 88 reads the request before any look at the error,
  so a \<open>nil\<close> request panics. Line 93 returns the pair of the last iteration; before any
  iteration it is \<open>nil\<close>, \<open>nil\<close>.
\<close>

record Request =
  Method :: string
  URL :: string
  Payload :: "string option"

type_synonym built = "Request option \<times> go_error option"

definition sleep :: nat where "sleep = 10"
definition attempts :: nat where "attempts = 9"

function HttpRetry_loop ::
  "(go_context \<Rightarrow> string \<Rightarrow> string \<Rightarrow> string option \<Rightarrow> built) \<Rightarrow> (Request \<Rightarrow> nat)
    \<Rightarrow> go_context \<Rightarrow> string \<Rightarrow> nat \<Rightarrow> built \<Rightarrow> effect list
    \<Rightarrow> built outcome \<times> effect list" where
  "HttpRetry_loop new_request status_of ctx url i prev tr =
     (if i < attempts then
        (case new_request ctx MethodGet url None of (httpReq, err) \<Rightarrow>
           (case httpReq of
              None \<Rightarrow> (Panicked, tr @ [Built MethodGet url])
            | Some r \<Rightarrow>
                if status_of r \<noteq> StatusTooManyRequests
                then (Returned (httpReq, err), tr @ [Built MethodGet url])
                else HttpRetry_loop new_request status_of ctx url (Suc i) (httpReq, err)
                       (tr @ [Built MethodGet url, Slept sleep])))
      else (Returned prev, tr))"
  by pat_completeness auto
termination
  by (relation "measure (\<lambda>(new_request, status_of, ctx, url, i, prev, tr). attempts - i)")
     auto

definition HttpRetry ::
  "(go_context \<Rightarrow> string \<Rightarrow> string \<Rightarrow> string option \<Rightarrow> built) \<Rightarrow> (Request \<Rightarrow> nat)
    \<Rightarrow> go_context \<Rightarrow> string \<Rightarrow> string \<Rightarrow> string option
    \<Rightarrow> built outcome \<times> effect list" where
  "HttpRetry new_request status_of ctx method url body =
     HttpRetry_loop new_request status_of ctx url 0 (None, None) []"

section \<open>The deletion verifier (helpers.go, CheckDeletion)\<close>

subsection \<open>Library calls on strings\<close>

text \<open>
  \<open>fmt\<close>'s verb \<open>%d\<close> on a status code: its decimal digits. With \<open>%v\<close> and
  \<open>%s\<close> an error prints as its message, and a \<open>nil\<close> error under \<open>%s\<close> prints
  as the text of \<open>nil_error_s\<close>.
\<close>

definition digit_char :: "nat \<Rightarrow> char" where
  "digit_char d = char_of (48 + d)"

fun Itoa :: "nat \<Rightarrow> string" where
  "Itoa n = (if n < 10 then [digit_char n] else Itoa (n div 10) @ [digit_char (n mod 10)])"

declare Itoa.simps [simp del]

definition nil_error_s :: string where
  "nil_error_s = ''%!s(<nil>)''"

text \<open>
  \<open>regexp.MatchString\<close> with the pattern of line 38,
  \<open>^https://[^/]+/api/[^/]+/spaces/[^/]+$\<close>. A run \<open>[^/]+\<close> that is followed by a
  literal starting with a slash can only be the longest slash-free run, which must not be
  empty; so the match is decided left to right without backtracking.
\<close>

fun TrimPrefix :: "string \<Rightarrow> string \<Rightarrow> string option" where
  "TrimPrefix [] s = Some s"
| "TrimPrefix (p # ps) [] = None"
| "TrimPrefix (p # ps) (c # cs) = (if p = c then TrimPrefix ps cs else None)"

definition segment :: "string \<Rightarrow> string" where
  "segment s = takeWhile (\<lambda>c. c \<noteq> CHR ''/'') s"

definition after_segment :: "string \<Rightarrow> string" where
  "after_segment s = dropWhile (\<lambda>c. c \<noteq> CHR ''/'') s"

definition MatchString_spaces_item :: "string \<Rightarrow> bool" where
  "MatchString_spaces_item resourceURL =
     (case TrimPrefix ''https://'' resourceURL of
        None \<Rightarrow> False
      | Some s1 \<Rightarrow>
          segment s1 \<noteq> [] \<and>
          (case TrimPrefix ''/api/'' (after_segment s1) of
             None \<Rightarrow> False
           | Some s2 \<Rightarrow>
               segment s2 \<noteq> [] \<and>
               (case TrimPrefix ''/spaces/'' (after_segment s2) of
                  None \<Rightarrow> False
                | Some s3 \<Rightarrow> s3 \<noteq> [] \<and> after_segment s3 = [])))"

text \<open>
  \<open>strings.Split(s, sep)[0]\<close> for a non-empty separator: the text before the first
  occurrence of \<open>sep\<close>, and all of \<open>s\<close> when \<open>sep\<close> does not occur.
\<close>

fun Split_first :: "string \<Rightarrow> string \<Rightarrow> string" where
  "Split_first sep [] = []"
| "Split_first sep (c # cs) = (if prefix sep (c # cs) then [] else c # Split_first sep cs)"

definition collections_url :: "string \<Rightarrow> string" where
  "collections_url resourceURL = Split_first ''/spaces/'' resourceURL @ ''/spaces?filter=all''"

subsection \<open>The world the verifier runs in\<close>

text \<open>
  The shared client is a script: \<open>client_Do env n method url\<close> is the pair that the
  \<open>n\<close>-th request of the run yields (\<open>client.Get\<close> is \<open>Do\<close> with method
  \<open>GET\<close>). \<open>NewRequest\<close> is \<open>http.NewRequest\<close>, which fails on a URL it cannot parse,
  and \<open>Decode_state\<close> is \<open>encoding/json\<close> decoding a body into the struct with the one
  field \<open>state\<close>; both belong to the Go library and are parameters here.

  What wakes the loop is a sequence of signals. The \<open>select\<close> of lines 21 to 24 has two
  cases, the timeout channel and the ticker channel; when both are ready Go picks one, so
  the order is part of the input. The host's cancellation is a signal of the environment
  that no case of the \<open>select\<close> receives. A run whose signals end before it returns is
  still blocked in the \<open>select\<close>.
\<close>

record 'b env =
  client_Do :: "nat \<Rightarrow> string \<Rightarrow> string \<Rightarrow> 'b exchange"
  NewRequest :: "string \<Rightarrow> string \<Rightarrow> go_error option"
  Decode_state :: "'b \<Rightarrow> go_error + string"

datatype signal = TimeoutFired | TickFired | CancelFired

text \<open>
  The state of a run: how many requests it has issued, the bodies whose \<open>Close\<close> is
  deferred (latest first: deferred calls run in reverse order when the function returns
  or panics), and the effects so far. Console output and the deferred \<open>ticker.Stop\<close>
  are not recorded.
\<close>

record run =
  issued :: nat
  deferred :: "nat list"
  trace :: "effect list"

datatype step = Return "go_error option" | Continue | Panic

definition workaround_failed :: "string \<Rightarrow> go_error" where
  "workaround_failed cause =
     ''Unable to read collections during deletion verification, got error: '' @ cause"

text \<open>Lines 38 to 59: the branch for status 403.\<close>

definition forbidden :: "'b env \<Rightarrow> string \<Rightarrow> 'b Response \<Rightarrow> run \<Rightarrow> step \<times> run" where
  "forbidden env resourceURL resp st =
     (if MatchString_spaces_item resourceURL then
        (let url = collections_url resourceURL in
         case NewRequest env MethodGet url of
           Some e \<Rightarrow> (Return (Some (workaround_failed e)), st)
         | None \<Rightarrow>
             (case client_Do env (issued st) MethodGet url of (httpResp, err) \<Rightarrow>
                (let st1 = st\<lparr>issued := Suc (issued st),
                               trace := trace st @ [Sent MethodGet url]\<rparr> in
                 case err of
                   Some e \<Rightarrow> (Return (Some (workaround_failed e)), st1)
                 | None \<Rightarrow>
                     (case httpResp of
                        None \<Rightarrow> (Panic, st1)
                      | Some r \<Rightarrow>
                          (let st2 = st1\<lparr>deferred := issued st # deferred st1\<rparr> in
                           if StatusCode r \<noteq> StatusOK
                           then (Return (Some (workaround_failed nil_error_s)), st2)
                           else (Return None, st2))))))
      else (Return (Some (''unexpected status: '' @ Itoa (StatusCode resp)
                          @ '', not retrying'')), st))"

text \<open>Lines 25 to 77: the case of the ticker, one poll.\<close>

definition poll :: "'b env \<Rightarrow> string \<Rightarrow> run \<Rightarrow> step \<times> run" where
  "poll env resourceURL st =
     (case client_Do env (issued st) MethodGet resourceURL of (resp, err) \<Rightarrow>
        (let st1 = st\<lparr>issued := Suc (issued st),
                      trace := trace st @ [Sent MethodGet resourceURL]\<rparr> in
         case err of
           Some e \<Rightarrow> (Return (Some (''error making GET request: '' @ e)), st1)
         | None \<Rightarrow>
             (case resp of
                None \<Rightarrow> (Panic, st1)
              | Some r \<Rightarrow>
                  (let st2 = st1\<lparr>deferred := issued st # deferred st1\<rparr> in
                   if StatusCode r = StatusNotFound then (Return None, st2)
                   else if StatusCode r = StatusForbidden then forbidden env resourceURL r st2
                   else if StatusCode r = StatusOK then
                     (case Decode_state env (Body r) of
                        Inl e \<Rightarrow> (Return (Some (''error decoding response: '' @ e)), st2)
                      | Inr state \<Rightarrow>
                          if state = ''soft_deleted'' then (Return None, st2)
                          else (Continue, st2))
                   else (Return (Some (''unexpected status or state: ''
                                       @ Itoa (StatusCode r) @ '', not retrying'')), st2)))))"

definition leave :: "'a outcome \<Rightarrow> run \<Rightarrow> 'a outcome \<times> effect list" where
  "leave res st = (res, trace st @ map Closed (deferred st))"

definition timed_out :: go_error where
  "timed_out = ''deletion verification timed out after 1 minute''"

fun CheckDeletion_loop ::
  "'b env \<Rightarrow> string \<Rightarrow> signal list \<Rightarrow> run \<Rightarrow> go_error option outcome \<times> effect list" where
  "CheckDeletion_loop env resourceURL [] st = (Blocked, trace st)"
| "CheckDeletion_loop env resourceURL (TimeoutFired # sigs) st =
     leave (Returned (Some timed_out)) st"
| "CheckDeletion_loop env resourceURL (CancelFired # sigs) st =
     CheckDeletion_loop env resourceURL sigs st"
| "CheckDeletion_loop env resourceURL (TickFired # sigs) st =
     (case poll env resourceURL st of
        (Return err, st') \<Rightarrow> leave (Returned err) st'
      | (Panic, st') \<Rightarrow> leave Panicked st'
      | (Continue, st') \<Rightarrow> CheckDeletion_loop env resourceURL sigs st')"

definition CheckDeletion ::
  "'b env \<Rightarrow> string \<Rightarrow> signal list \<Rightarrow> go_error option outcome \<times> effect list" where
  "CheckDeletion env resourceURL sigs =
     CheckDeletion_loop env resourceURL sigs \<lparr>issued = 0, deferred = [], trace = []\<rparr>"

section \<open>Resource handlers\<close>

text \<open>
  Attribute values of the plugin framework: a \<open>types.String\<close> or \<open>types.Bool\<close> is
  null, unknown or known; \<open>ValueString\<close> and \<open>ValueBool\<close> give the zero value for
  the first two.
\<close>

datatype tf_string = StringNull | StringUnknown | StringValue string

datatype tf_bool = BoolNull | BoolUnknown | BoolValue bool

fun ValueString :: "tf_string \<Rightarrow> string" where
  "ValueString (StringValue s) = s"
| "ValueString v = []"

fun ValueBool :: "tf_bool \<Rightarrow> bool" where
  "ValueBool (BoolValue b) = b"
| "ValueBool v = False"

text \<open>
  What a handler leaves behind: the diagnostics it added (summary and detail; the text that
  \<open>%v\<close> prints for a response is left out of the detail), what it did to the stored
  state, and the bodies it closed. The handlers call \<open>HttpRetry\<close> with a client and a
  request and read a response from it; that call is a parameter \<open>send\<close> of each
  handler, from method, URL and payload to the pair it yields. A handler owns the body of
  the \<open>k\<close>-th response it receives; \<open>Closed k\<close> records its \<open>Close\<close>.
\<close>

datatype 'm state_change = Untouched | Set 'm | Removed

record 'm handled =
  diagnostics :: "(string \<times> string) list"
  change :: "'m state_change"
  released :: "effect list"

subsection \<open>DataSourcePermissionResource.Create\<close>

record DataSourcePermissionResourceModel =
  DataSourceToken :: tf_string
  Action :: tf_string
  AccessorToken :: tf_string
  AccessorType :: tf_string
  PermissionToken :: tf_string

record Permission =
  json_action :: string
  json_accessor_type :: string
  json_accessor_token :: string

definition MethodPost :: string where "MethodPost = ''POST''"

definition DataSourcePermission_Create ::
  "string \<Rightarrow> string \<Rightarrow> (string \<Rightarrow> string \<Rightarrow> go_error option)
    \<Rightarrow> (string \<Rightarrow> string \<Rightarrow> Permission \<Rightarrow> 'b exchange) \<Rightarrow> ('b \<Rightarrow> go_error + string)
    \<Rightarrow> DataSourcePermissionResourceModel
    \<Rightarrow> DataSourcePermissionResourceModel handled outcome" where
  "DataSourcePermission_Create modeHost workspaceId new_request send decode_token plan =
     (let url = modeHost @ ''/api/'' @ workspaceId @ ''/data_sources/''
                @ ValueString (DataSourceToken plan) @ ''/permissions'';
          payload = \<lparr>json_action = ValueString (Action plan),
                     json_accessor_type = ValueString (AccessorType plan),
                     json_accessor_token = ValueString (AccessorToken plan)\<rparr>
      in case new_request MethodPost url of
           Some e \<Rightarrow>
             Returned \<lparr>diagnostics = [(''Client Error'',
                          ''One Unable to create data source permission, got error: '' @ e)],
                       change = Untouched, released = []\<rparr>
         | None \<Rightarrow>
             (case send MethodPost url payload of (httpResp, err) \<Rightarrow>
                if err \<noteq> None then
                  Returned \<lparr>diagnostics = [(''Client Error'',
                               ''Two Unable to create data source permission, got error: '')],
                            change = Untouched, released = []\<rparr>
                else
                  (case httpResp of
                     None \<Rightarrow> Panicked
                   | Some r \<Rightarrow>
                       if StatusCode r \<noteq> StatusOK then
                         Returned \<lparr>diagnostics = [(''Client Error'',
                               ''Two Unable to create data source permission, got error: '')],
                                   change = Untouched, released = []\<rparr>
                       else
                         (case decode_token (Body r) of
                            Inl e \<Rightarrow>
                              Returned \<lparr>diagnostics = [(''Client Error'',
                                           ''Error parsing response: '' @ e)],
                                        change = Untouched, released = [Closed 0]\<rparr>
                          | Inr token \<Rightarrow>
                              Returned \<lparr>diagnostics = [],
                                        change = Set (plan\<lparr>PermissionToken := StringValue token\<rparr>),
                                        released = [Closed 0]\<rparr>))))"

subsection \<open>CollectionResource.Create and CollectionResource.Read\<close>

text \<open>
  The JSON objects are records named by their keys: \<open>Collection\<close> is the object sent
  under \<open>space\<close> (the key \<open>viewable?\<close> is the field \<open>json_viewable\<close>), and the
  object decoded from a response has three keys more.
\<close>

record CollectionModel =
  Name :: tf_string
  State :: tf_string
  CollectionToken :: tf_string
  CollectionType :: tf_string
  Id :: tf_string
  Description :: tf_string
  Restricted :: tf_bool
  FreeDefault :: tf_bool
  Viewable :: tf_bool
  DefaultAccessLevel :: tf_string

record Collection =
  json_space_type :: string
  json_name :: string
  json_description :: string
  json_restricted :: bool
  json_free_default :: bool
  json_viewable :: bool
  json_default_access_level :: string

record responseData = Collection +
  json_id :: string
  json_state :: string
  json_token :: string

definition Create_payload :: "CollectionModel \<Rightarrow> Collection" where
  "Create_payload plan =
     (let payload = \<lparr>json_space_type = ValueString (CollectionType plan),
                      json_name = ValueString (Name plan),
                      json_description = ValueString (Description plan),
                      json_restricted = ValueBool (Restricted plan),
                      json_free_default = ValueBool (FreeDefault plan),
                      json_viewable = ValueBool (Viewable plan),
                      json_default_access_level = ValueString (DefaultAccessLevel plan)\<rparr>
      in if ValueString (DefaultAccessLevel plan) = ''restricted''
         then payload\<lparr>json_default_access_level := ''none''\<rparr>
         else payload)"

definition Collection_Create ::
  "string \<Rightarrow> string \<Rightarrow> (string \<Rightarrow> string \<Rightarrow> go_error option)
    \<Rightarrow> (string \<Rightarrow> string \<Rightarrow> Collection option \<Rightarrow> 'b exchange)
    \<Rightarrow> ('b \<Rightarrow> go_error + responseData)
    \<Rightarrow> CollectionModel \<Rightarrow> CollectionModel handled outcome" where
  "Collection_Create modeHost workspaceId new_request send decode plan =
     (let url = modeHost @ ''/api/'' @ workspaceId @ ''/spaces'';
          payload = Create_payload plan
      in case new_request MethodPost url of
           Some e \<Rightarrow>
             Returned \<lparr>diagnostics = [(''Client Error'',
                          ''One Unable to create collection, got error: '' @ e)],
                       change = Untouched, released = []\<rparr>
         | None \<Rightarrow>
             (case send MethodPost url (Some payload) of (httpResp, err) \<Rightarrow>
                if err \<noteq> None then
                  Returned \<lparr>diagnostics = [(''Client Error'',
                               ''Two Unable to create collection, got error: '')],
                            change = Untouched, released = []\<rparr>
                else
                  (case httpResp of
                     None \<Rightarrow> Panicked
                   | Some r \<Rightarrow>
                       if StatusCode r \<noteq> StatusOK then
                         Returned \<lparr>diagnostics = [(''Client Error'',
                                      ''Two Unable to create collection, got error: '')],
                                   change = Untouched, released = []\<rparr>
                       else
                         (case decode (Body r) of
                            Inl e \<Rightarrow>
                              Returned \<lparr>diagnostics = [(''Client Error'',
                                           ''Error parsing response: '' @ e)],
                                        change = Untouched, released = [Closed 0]\<rparr>
                          | Inr d \<Rightarrow>
                              Returned \<lparr>diagnostics = [],
                                change = Set (plan
                                  \<lparr>CollectionToken := StringValue (json_token d),
                                   State := StringValue (json_state d),
                                   Id := StringValue (json_id d),
                                   Restricted := BoolValue (json_restricted d),
                                   FreeDefault := BoolValue (json_free_default d),
                                   Viewable := BoolValue (json_viewable d),
                                   DefaultAccessLevel :=
                                     StringValue (json_default_access_level d)\<rparr>),
                                released = [Closed 0]\<rparr>))))"

text \<open>Lines 277 to 300 of \<open>Read\<close>: status 403, the listing of all collections.\<close>

definition Collection_Read_forbidden ::
  "string \<Rightarrow> string \<Rightarrow> (string \<Rightarrow> string \<Rightarrow> go_error option)
    \<Rightarrow> (string \<Rightarrow> string \<Rightarrow> Collection option \<Rightarrow> 'b exchange)
    \<Rightarrow> CollectionModel handled outcome" where
  "Collection_Read_forbidden modeHost workspaceId new_request send =
     (let url = modeHost @ ''/api/'' @ workspaceId @ ''/spaces?filter=all''
      in case new_request MethodGet url of
           Some e \<Rightarrow>
             Returned \<lparr>diagnostics = [(''Client Error'',
                          ''Unable to read collection, got error: '' @ e)],
                       change = Untouched, released = [Closed 0]\<rparr>
         | None \<Rightarrow>
             (case send MethodGet url None of (httpResp, err) \<Rightarrow>
                (case err of
                   Some e \<Rightarrow>
                     Returned \<lparr>diagnostics = [(''Client Error'',
                                  ''Unable to read collection, got error: '' @ e)],
                               change = Untouched, released = [Closed 0]\<rparr>
                 | None \<Rightarrow>
                     (case httpResp of
                        None \<Rightarrow> Panicked
                      | Some r \<Rightarrow>
                          if StatusCode r = StatusOK then
                            Returned \<lparr>diagnostics = [], change = Removed,
                                      released = [Closed 1, Closed 0]\<rparr>
                          else
                            Returned \<lparr>diagnostics = [(''Client Error'',
                                         ''Unable to read collection, got error: ''
                                         @ nil_error_s)],
                                      change = Untouched,
                                      released = [Closed 1, Closed 0]\<rparr>))))"

definition Collection_Read ::
  "string \<Rightarrow> string \<Rightarrow> (string \<Rightarrow> string \<Rightarrow> go_error option)
    \<Rightarrow> (string \<Rightarrow> string \<Rightarrow> Collection option \<Rightarrow> 'b exchange)
    \<Rightarrow> ('b \<Rightarrow> go_error + responseData)
    \<Rightarrow> CollectionModel \<Rightarrow> CollectionModel handled outcome" where
  "Collection_Read modeHost workspaceId new_request send decode state =
     (let url = modeHost @ ''/api/'' @ workspaceId @ ''/spaces/''
                @ ValueString (CollectionToken state)
      in case new_request MethodGet url of
           Some e \<Rightarrow>
             Returned \<lparr>diagnostics = [(''Client Error'',
                          ''Unable to read collection, got error: '' @ e)],
                       change = Untouched, released = []\<rparr>
         | None \<Rightarrow>
             (case send MethodGet url None of (httpResp, err) \<Rightarrow>
                (case err of
                   Some e \<Rightarrow>
                     Returned \<lparr>diagnostics = [(''Client Error'',
                                  ''Unable to read collection, got error: '' @ e)],
                               change = Untouched, released = []\<rparr>
                 | None \<Rightarrow>
                     (case httpResp of
                        None \<Rightarrow> Panicked
                      | Some r \<Rightarrow>
                          if StatusCode r = StatusOK then
                            (case decode (Body r) of
                               Inl e \<Rightarrow>
                                 Returned \<lparr>diagnostics = [(''Client Error'',
                                              ''Error parsing response: '' @ e)],
                                           change = Untouched, released = [Closed 0]\<rparr>
                             | Inr d \<Rightarrow>
                                 if json_state d = ''soft_deleted'' then
                                   Returned \<lparr>diagnostics = [], change = Removed,
                                             released = [Closed 0]\<rparr>
                                 else
                                   Returned \<lparr>diagnostics = [],
                                     change = Set (state
                                       \<lparr>State := StringValue (json_state d),
                                        Name := StringValue (json_name d),
                                        CollectionType := StringValue (json_space_type d),
                                        Description := StringValue (json_description d),
                                        Restricted := BoolValue (json_restricted d),
                                        FreeDefault := BoolValue (json_free_default d),
                                        Viewable := BoolValue (json_viewable d),
                                        DefaultAccessLevel :=
                                          StringValue (json_default_access_level d)\<rparr>),
                                     released = [Closed 0]\<rparr>)
                          else if StatusCode r = StatusNotFound then
                            Returned \<lparr>diagnostics = [], change = Removed,
                                      released = [Closed 0]\<rparr>
                          else if StatusCode r = StatusForbidden then
                            Collection_Read_forbidden modeHost workspaceId new_request send
                          else
                            Returned \<lparr>diagnostics = [(''API response error'',
                                         ''Received non-200 response status: ''
                                         @ Itoa (StatusCode r))],
                                      change = Untouched, released = [Closed 0]\<rparr>))))"

section \<open>Vocabulary of the properties\<close>

subsection \<open>Request executor\<close>

text \<open>
  \<open>waits_between seen tr\<close> says that every sleep in \<open>tr\<close> lies between two attempts:
  an attempt (a request sent or built) comes before it, or \<open>seen\<close> already holds, and an
  attempt comes after it. \<open>builds\<close> is a \<open>new_request\<close> that always succeeds, and
  the two readings of line 88 are the one that finds 429 and the one that finds 200.
\<close>

fun is_attempt :: "effect \<Rightarrow> bool" where
  "is_attempt (Sent m u) = True"
| "is_attempt (Built m u) = True"
| "is_attempt e = False"

fun waits_between :: "bool \<Rightarrow> effect list \<Rightarrow> bool" where
  "waits_between seen [] = True"
| "waits_between seen (Slept d # es) = (seen \<and> list_ex is_attempt es \<and> waits_between seen es)"
| "waits_between seen (Closed i # es) = waits_between seen es"
| "waits_between seen (e # es) = waits_between True es"

definition builds :: "go_context \<Rightarrow> string \<Rightarrow> string \<Rightarrow> string option \<Rightarrow> built" where
  "builds ctx method url body = (Some \<lparr>Method = method, URL = url, Payload = body\<rparr>, None)"

definition reads_429 :: "Request \<Rightarrow> nat" where
  "reads_429 r = 429"

definition reads_200 :: "Request \<Rightarrow> nat" where
  "reads_200 r = 200"

subsection \<open>Deletion verifier\<close>

text \<open>
  What a poll can observe. A poll is \<open>still_active\<close> when it answers 200 with a body
  whose \<open>state\<close> decodes to a string other than \<open>soft_deleted\<close>, and \<open>gone\<close>
  when it answers 404, or 200 with \<open>state\<close> equal to \<open>soft_deleted\<close>.
\<close>

definition still_active :: "'b env \<Rightarrow> 'b exchange \<Rightarrow> bool" where
  "still_active env x =
     (case x of
        (Some r, None) \<Rightarrow>
          StatusCode r = StatusOK \<and>
          (case Decode_state env (Body r) of Inl e \<Rightarrow> False | Inr state \<Rightarrow> state \<noteq> ''soft_deleted'')
      | _ \<Rightarrow> False)"

definition gone :: "'b env \<Rightarrow> 'b exchange \<Rightarrow> bool" where
  "gone env x =
     (case x of
        (Some r, None) \<Rightarrow>
          StatusCode r = StatusNotFound \<or>
          (StatusCode r = StatusOK \<and> Decode_state env (Body r) = Inr ''soft_deleted'')
      | _ \<Rightarrow> False)"

definition polls :: "string \<Rightarrow> nat \<Rightarrow> effect list" where
  "polls resourceURL k = replicate k (Sent MethodGet resourceURL)"

definition closes :: "nat \<Rightarrow> effect list" where
  "closes k = map Closed (rev [0..<k])"

text \<open>
  The verifier as the specification words it: a machine with the states \<open>Polling\<close>
  (initial), \<open>ConfirmedDeleted\<close>, \<open>TimedOut\<close> and \<open>Errored\<close>. On a tick, 404
  confirms; 200 confirms when the body's \<open>state\<close> is \<open>soft_deleted\<close> and keeps
  polling on any other state; 403 on a URL of the nested item pattern asks for the parent
  listing and confirms when that answers 200, and is an error otherwise; any other status
  is an error; a request that cannot be built or sent and a body that does not decode are
  errors; the timeout while polling ends in \<open>TimedOut\<close>. The machine takes the pattern
  and the URL of the parent listing as parameters. The second component counts the
  requests issued, to read the same script as the code.

  The pattern and the listing in the specification's words: a URL is of the pattern
  \<open>.../spaces/<token>\<close> when its last segment, the token, is not empty and what comes
  before it ends in \<open>/spaces/\<close>; the parent listing is the URL without the token and the
  slash before it, with the filter \<open>all\<close>.
\<close>

definition last_segment :: "string \<Rightarrow> string" where
  "last_segment url = rev (takeWhile (\<lambda>c. c \<noteq> CHR ''/'') (rev url))"

definition before_last_segment :: "string \<Rightarrow> string" where
  "before_last_segment url = rev (dropWhile (\<lambda>c. c \<noteq> CHR ''/'') (rev url))"

definition spec_item :: "string \<Rightarrow> bool" where
  "spec_item resourceURL =
     (last_segment resourceURL \<noteq> [] \<and> suffix ''/spaces/'' (before_last_segment resourceURL))"

definition spec_parent_listing :: "string \<Rightarrow> string" where
  "spec_parent_listing resourceURL =
     butlast (before_last_segment resourceURL) @ ''?filter=all''"

datatype verifier_state = Polling | ConfirmedDeleted | TimedOut | Errored

definition spec_secondary ::
  "(string \<Rightarrow> string) \<Rightarrow> 'b env \<Rightarrow> string \<Rightarrow> nat \<Rightarrow> verifier_state \<times> nat" where
  "spec_secondary listing env resourceURL n =
     (case NewRequest env MethodGet (listing resourceURL) of
        Some e \<Rightarrow> (Errored, n)
      | None \<Rightarrow>
          (case client_Do env n MethodGet (listing resourceURL) of
             (Some r, None) \<Rightarrow>
               (if StatusCode r = StatusOK then ConfirmedDeleted else Errored, Suc n)
           | _ \<Rightarrow> (Errored, Suc n)))"

definition spec_tick ::
  "(string \<Rightarrow> bool) \<Rightarrow> (string \<Rightarrow> string) \<Rightarrow> 'b env \<Rightarrow> string \<Rightarrow> nat
    \<Rightarrow> verifier_state \<times> nat" where
  "spec_tick item listing env resourceURL n =
     (case client_Do env n MethodGet resourceURL of
        (Some r, None) \<Rightarrow>
          if StatusCode r = StatusNotFound then (ConfirmedDeleted, Suc n)
          else if StatusCode r = StatusOK then
            (case Decode_state env (Body r) of
               Inl e \<Rightarrow> (Errored, Suc n)
             | Inr state \<Rightarrow>
                 (if state = ''soft_deleted'' then ConfirmedDeleted else Polling, Suc n))
          else if StatusCode r = StatusForbidden then
            (if item resourceURL then spec_secondary listing env resourceURL (Suc n)
             else (Errored, Suc n))
          else (Errored, Suc n)
      | _ \<Rightarrow> (Errored, Suc n))"

fun spec_verifier ::
  "(string \<Rightarrow> bool) \<Rightarrow> (string \<Rightarrow> string) \<Rightarrow> 'b env \<Rightarrow> string \<Rightarrow> signal list \<Rightarrow> nat
    \<Rightarrow> verifier_state" where
  "spec_verifier item listing env resourceURL [] n = Polling"
| "spec_verifier item listing env resourceURL (TimeoutFired # sigs) n = TimedOut"
| "spec_verifier item listing env resourceURL (CancelFired # sigs) n =
     spec_verifier item listing env resourceURL sigs n"
| "spec_verifier item listing env resourceURL (TickFired # sigs) n =
     (case spec_tick item listing env resourceURL n of
        (Polling, m) \<Rightarrow> spec_verifier item listing env resourceURL sigs m
      | (s, m) \<Rightarrow> s)"

text \<open>
  The state that the outcome of one poll of the code stands for. The specification has no
  state for a panic; the comparison leaves out the runs that panic.
\<close>

fun state_of :: "step \<Rightarrow> verifier_state" where
  "state_of (Return None) = ConfirmedDeleted"
| "state_of (Return (Some e)) = Errored"
| "state_of Continue = Polling"
| "state_of Panic = Errored"






subsection \<open>Concrete runs\<close>

text \<open>
  A scripted world for examples: the \<open>n\<close>-th request is answered by \<open>f n\<close> applied to
  its URL, every request can be built, and a body is the text of its \<open>state\<close> field.
\<close>

definition scripted :: "(nat \<Rightarrow> string \<Rightarrow> string exchange) \<Rightarrow> string env" where
  "scripted f =
     \<lparr>client_Do = (\<lambda>n method url. f n url), NewRequest = (\<lambda>method url. None),
      Decode_state = (\<lambda>body. Inr body)\<rparr>"

definition answer :: "nat \<Rightarrow> string \<Rightarrow> string exchange" where
  "answer code body = (Some \<lparr>StatusCode = code, Body = body\<rparr>, None)"

definition active_then_404 :: "nat \<Rightarrow> string \<Rightarrow> string exchange" where
  "active_then_404 n url = (if n = 0 then answer 200 ''active'' else answer 404 [])"


definition active_then_500 :: "nat \<Rightarrow> string \<Rightarrow> string exchange" where
  "active_then_500 n url = (if n = 0 then answer 200 ''active'' else answer 500 [])"

text \<open>
  A workspace that is itself called \<open>spaces\<close>: the collection answers 403 after its
  deletion, the listing of the workspace's collections answers 200, and every other URL
  answers 404.
\<close>

definition workspace_named_spaces :: "nat \<Rightarrow> string \<Rightarrow> string exchange" where
  "workspace_named_spaces n url =
     (if url = ''https://host/api/spaces/spaces/tok1'' then answer 403 []
      else if url = ''https://host/api/spaces/spaces?filter=all'' then answer 200 []
      else answer 404 [])"

text \<open>
  A plan for a data source permission, and an upstream that answers the creating request
  with status 500.
\<close>

definition permission_plan :: DataSourcePermissionResourceModel where
  "permission_plan =
     \<lparr>DataSourceToken = StringValue ''ds1'', Action = StringValue ''query'',
      AccessorToken = StringValue ''grp1'', AccessorType = StringValue ''UserGroup'',
      PermissionToken = StringUnknown\<rparr>"

definition answers_500 :: "string \<Rightarrow> string \<Rightarrow> Permission \<Rightarrow> string exchange" where
  "answers_500 method url payload = answer 500 ''{}''"

text \<open>
  An upstream that keeps a collection as it was sent. It answers a POST to the
  collections of the workspace that carries a collection with that collection, and a GET
  of the collection with its token with the collection it holds, each time under the same
  identifier, state and token; a POST without a payload is a bad request, and every other
  method or URL is not found. A body is the decoded object, if there is one.
\<close>

definition echo :: "string \<Rightarrow> string \<Rightarrow> string \<Rightarrow> Collection \<Rightarrow> responseData" where
  "echo ident st tok c =
     \<lparr>json_space_type = json_space_type c, json_name = json_name c,
      json_description = json_description c, json_restricted = json_restricted c,
      json_free_default = json_free_default c, json_viewable = json_viewable c,
      json_default_access_level = json_default_access_level c,
      json_id = ident, json_state = st, json_token = tok\<rparr>"

definition collection_server ::
  "string \<Rightarrow> string \<Rightarrow> string \<Rightarrow> string \<Rightarrow> string \<Rightarrow> Collection
    \<Rightarrow> string \<Rightarrow> string \<Rightarrow> Collection option \<Rightarrow> responseData option exchange" where
  "collection_server modeHost workspaceId ident st tok held method url payload =
     (if method = MethodPost \<and> url = modeHost @ ''/api/'' @ workspaceId @ ''/spaces'' then
        (case payload of
           Some c \<Rightarrow> (Some \<lparr>StatusCode = 200, Body = Some (echo ident st tok c)\<rparr>, None)
         | None \<Rightarrow> (Some \<lparr>StatusCode = 400, Body = None\<rparr>, None))
      else if method = MethodGet
              \<and> url = modeHost @ ''/api/'' @ workspaceId @ ''/spaces/'' @ tok then
        (Some \<lparr>StatusCode = 200, Body = Some (echo ident st tok held)\<rparr>, None)
      else (Some \<lparr>StatusCode = 404, Body = None\<rparr>, None))"

definition can_build :: "string \<Rightarrow> string \<Rightarrow> go_error option" where
  "can_build method url = None"

definition decoded :: "responseData option \<Rightarrow> go_error + responseData" where
  "decoded body = (case body of None \<Rightarrow> Inl ''EOF'' | Some d \<Rightarrow> Inr d)"

text \<open>The plan of a collection that sets only its name: every other attribute is the
  default of the schema, and the computed attributes are unknown.\<close>

definition default_plan :: CollectionModel where
  "default_plan =
     \<lparr>Name = StringValue ''Sales'', State = StringUnknown, CollectionToken = StringUnknown,
      CollectionType = StringValue ''custom'', Id = StringUnknown,
      Description = StringValue [], Restricted = BoolValue False,
      FreeDefault = BoolValue False, Viewable = BoolValue True,
      DefaultAccessLevel = StringValue ''restricted''\<rparr>"

section \<open>Properties of the retrying request executor\<close>

text \<open>
  Whatever the library call yields and whatever line 88 reads, a run of \<open>HttpRetry\<close>
  sends no request, and it does not depend on the method and the body of the caller.
\<close>

lemma HttpRetry_loop_sends_nothing:
  "filter is_Sent (snd (HttpRetry_loop new_request status_of ctx url i prev tr))
     = filter is_Sent tr"
proof (induction new_request status_of ctx url i prev tr rule: HttpRetry_loop.induct)
  case (1 new_request status_of ctx url i prev tr)
  show ?case
  proof (cases "i < attempts")
    case False
    then show ?thesis by simp
  next
    case True
    obtain q e where b: "new_request ctx MethodGet url None = (q, e)"
      by (cases "new_request ctx MethodGet url None")
    show ?thesis
    proof (cases q)
      case None
      then show ?thesis using True b by simp
    next
      case (Some r)
      show ?thesis
      proof (cases "status_of r \<noteq> StatusTooManyRequests")
        case other: True
        then show ?thesis using True b Some by simp
      next
        case False
        then have "HttpRetry_loop new_request status_of ctx url i prev tr =
            HttpRetry_loop new_request status_of ctx url (Suc i) (q, e)
              (tr @ [Built MethodGet url, Slept sleep])"
          using True b Some by simp
        moreover have "filter is_Sent (snd (HttpRetry_loop new_request status_of ctx url
              (Suc i) (q, e) (tr @ [Built MethodGet url, Slept sleep])))
            = filter is_Sent (tr @ [Built MethodGet url, Slept sleep])"
          using "1.IH"[OF True b[symmetric] Some False] by simp
        ultimately show ?thesis by simp
      qed
    qed
  qed
qed

lemma HttpRetry_sends_nothing:
  "filter is_Sent (snd (HttpRetry new_request status_of ctx method url body)) = []"
  by (simp only: HttpRetry_def HttpRetry_loop_sends_nothing filter.simps)

lemma HttpRetry_ignores_method_and_body:
  "HttpRetry new_request status_of ctx method url body
     = HttpRetry new_request status_of ctx method' url body'"
  by (simp add: HttpRetry_def)

text \<open>
  Claim C1, at a creating request as \<open>GroupResource.Create\<close> makes it (method POST, a
  payload), under each reading of line 88. The run builds requests with method GET and no
  payload, sends none, and returns a request, not a response: once when the test finds
  another value than 429, nine times with nine sleeps when it finds 429.
\<close>

lemma HttpRetry_builds_and_sends_nothing:
  "HttpRetry builds reads_200 CtxLive ''POST'' ''https://host/api/ws1/groups''
       (Some ''{...}'')
     = (Returned (Some \<lparr>Method = ''GET'', URL = ''https://host/api/ws1/groups'',
                         Payload = None\<rparr>, None),
        [Built ''GET'' ''https://host/api/ws1/groups''])
   \<and> fst (HttpRetry builds reads_429 CtxLive ''POST'' ''https://host/api/ws1/groups''
       (Some ''{...}''))
     = Returned (Some \<lparr>Method = ''GET'', URL = ''https://host/api/ws1/groups'',
                        Payload = None\<rparr>, None)
   \<and> filter is_Sent (snd (HttpRetry builds reads_429 CtxLive ''POST''
       ''https://host/api/ws1/groups'' (Some ''{...}''))) = []"
  by code_simp

text \<open>
  Claim C2, at a run whose test of line 88 finds 429 in each of the nine iterations. The
  loop sleeps nine times; the last sleep follows the last attempt, and no attempt follows
  it, so not every wait lies between two attempts.
\<close>

lemma HttpRetry_waits_after_last_attempt:
  "snd (HttpRetry builds reads_429 CtxLive ''GET'' ''https://host/api/ws1/groups'' None)
     = concat (replicate 9 [Built ''GET'' ''https://host/api/ws1/groups'', Slept 10])
   \<and> \<not> waits_between False
         (snd (HttpRetry builds reads_429 CtxLive ''GET'' ''https://host/api/ws1/groups''
                 None))"
  by code_simp

section \<open>The pattern match and the URL of the workaround\<close>

text \<open>
  The matcher accepts exactly the URLs \<open>https://HOST/api/WS/spaces/TOKEN\<close> with three
  non-empty slash-free parts, which is the language of the regular expression.
\<close>

lemma TrimPrefix_Some: "TrimPrefix p s = Some r \<longleftrightarrow> s = p @ r"
  by (induction p s rule: TrimPrefix.induct) auto

lemma segment_split:
  "s = a @ CHR ''/'' # b \<Longrightarrow> CHR ''/'' \<notin> set a \<Longrightarrow> segment s = a \<and> after_segment s = CHR ''/'' # b"
  by (induction a arbitrary: s) (auto simp: segment_def after_segment_def)

lemma segment_whole: "CHR ''/'' \<notin> set a \<Longrightarrow> segment a = a \<and> after_segment a = []"
  by (induction a) (auto simp: segment_def after_segment_def)

lemma after_segment_Nil: "after_segment a = [] \<longleftrightarrow> CHR ''/'' \<notin> set a"
  by (induction a) (auto simp: after_segment_def)

lemma segment_after: "s = segment s @ after_segment s"
  by (simp add: segment_def after_segment_def)

lemma segment_no_slash: "CHR ''/'' \<notin> set (segment s)"
  unfolding segment_def by (metis (mono_tags, lifting) set_takeWhileD)

lemma MatchString_spaces_itemI:
  "TrimPrefix ''https://'' u = Some s1 \<Longrightarrow> segment s1 \<noteq> [] \<Longrightarrow>
   TrimPrefix ''/api/'' (after_segment s1) = Some s2 \<Longrightarrow> segment s2 \<noteq> [] \<Longrightarrow>
   TrimPrefix ''/spaces/'' (after_segment s2) = Some s3 \<Longrightarrow> s3 \<noteq> [] \<Longrightarrow>
   after_segment s3 = [] \<Longrightarrow> MatchString_spaces_item u"
  by (simp add: MatchString_spaces_item_def)

lemma MatchString_spaces_item_iff:
  "MatchString_spaces_item u \<longleftrightarrow>
     (\<exists>host ws tok. u = ''https://'' @ host @ ''/api/'' @ ws @ ''/spaces/'' @ tok
        \<and> host \<noteq> [] \<and> CHR ''/'' \<notin> set host
        \<and> ws \<noteq> [] \<and> CHR ''/'' \<notin> set ws
        \<and> tok \<noteq> [] \<and> CHR ''/'' \<notin> set tok)"
  (is "?L \<longleftrightarrow> ?R")
proof
  assume ?L
  then obtain s1 s2 s3 where
    1: "u = ''https://'' @ s1" "segment s1 \<noteq> []"
    and 2: "after_segment s1 = ''/api/'' @ s2" "segment s2 \<noteq> []"
    and 3: "after_segment s2 = ''/spaces/'' @ s3" "s3 \<noteq> []" "after_segment s3 = []"
    unfolding MatchString_spaces_item_def
    by (auto split: option.splits simp: TrimPrefix_Some)
  have "s1 = segment s1 @ ''/api/'' @ s2" using segment_after[of s1] 2 by simp
  moreover have "s2 = segment s2 @ ''/spaces/'' @ s3" using segment_after[of s2] 3 by simp
  ultimately have "u = ''https://'' @ segment s1 @ ''/api/'' @ segment s2 @ ''/spaces/'' @ s3"
    using 1 by simp
  then show ?R
    using 1 2 3 segment_no_slash after_segment_Nil by blast
next
  assume ?R
  then obtain host ws tok where u: "u = ''https://'' @ host @ ''/api/'' @ ws @ ''/spaces/'' @ tok"
    and h: "host \<noteq> []" "CHR ''/'' \<notin> set host"
    and w: "ws \<noteq> []" "CHR ''/'' \<notin> set ws"
    and t: "tok \<noteq> []" "CHR ''/'' \<notin> set tok" by blast
  have a: "TrimPrefix ''https://'' u = Some (host @ ''/api/'' @ ws @ ''/spaces/'' @ tok)"
    using u by (simp add: TrimPrefix_Some)
  have b: "segment (host @ ''/api/'' @ ws @ ''/spaces/'' @ tok) = host"
     "after_segment (host @ ''/api/'' @ ws @ ''/spaces/'' @ tok) = ''/api/'' @ ws @ ''/spaces/'' @ tok"
    using segment_split[of "host @ ''/api/'' @ ws @ ''/spaces/'' @ tok" host "''api/'' @ ws @ ''/spaces/'' @ tok"] h
    by simp_all
  have c: "TrimPrefix ''/api/'' (after_segment (host @ ''/api/'' @ ws @ ''/spaces/'' @ tok)) = Some (ws @ ''/spaces/'' @ tok)"
    unfolding b by (simp add: TrimPrefix_Some)
  have d: "segment (ws @ ''/spaces/'' @ tok) = ws"
     "after_segment (ws @ ''/spaces/'' @ tok) = ''/spaces/'' @ tok"
    using segment_split[of "ws @ ''/spaces/'' @ tok" ws "''spaces/'' @ tok"] w
    by simp_all
  have e: "TrimPrefix ''/spaces/'' (after_segment (ws @ ''/spaces/'' @ tok)) = Some tok"
    unfolding d by (simp add: TrimPrefix_Some)
  show ?L
    by (rule MatchString_spaces_itemI[OF a _ c _ e])
       (use h w t b d in \<open>simp_all only: after_segment_Nil not_False_eq_True\<close>)
qed

text \<open>
  For a host and a workspace that are not themselves called \<open>spaces\<close>, the URL that
  line 40 builds is the listing of the collections of the workspace.
\<close>

lemma Split_first_skip:
  "CHR ''/'' \<notin> set a \<Longrightarrow> Split_first (CHR ''/'' # sep) (a @ r) = a @ Split_first (CHR ''/'' # sep) r"
  by (induction a) auto

lemma prefix_segment:
  "CHR ''/'' \<notin> set x \<Longrightarrow> CHR ''/'' \<notin> set h \<Longrightarrow>
   prefix (x @ CHR ''/'' # p) (h @ CHR ''/'' # r) \<Longrightarrow> x = h"
proof (induction x arbitrary: h)
  case Nil
  then show ?case by (cases h) auto
next
  case (Cons a x)
  then show ?case by (cases h) auto
qed

lemma Split_first_slash:
  "CHR ''/'' \<notin> set x \<Longrightarrow> CHR ''/'' \<notin> set h \<Longrightarrow> x \<noteq> h \<Longrightarrow>
   Split_first (CHR ''/'' # x @ ''/'') (CHR ''/'' # h @ CHR ''/'' # r)
     = CHR ''/'' # h @ Split_first (CHR ''/'' # x @ ''/'') (CHR ''/'' # r)"
  using prefix_segment[of x h "[]" r] Split_first_skip[of h "x @ ''/''" "CHR ''/'' # r"]
  by auto

lemma collections_url_parent:
  assumes "CHR ''/'' \<notin> set host" "CHR ''/'' \<notin> set ws" "host \<noteq> ''spaces''" "ws \<noteq> ''spaces''"
  shows "collections_url (''https://'' @ host @ ''/api/'' @ ws @ ''/spaces/'' @ tok)
           = ''https://'' @ host @ ''/api/'' @ ws @ ''/spaces?filter=all''"
proof -
  let ?sep = "CHR ''/'' # ''spaces'' @ ''/''"
  have 1: "Split_first ?sep (CHR ''/'' # ws @ CHR ''/'' # ''spaces/'' @ tok)
            = CHR ''/'' # ws @ Split_first ?sep (CHR ''/'' # ''spaces/'' @ tok)"
    using assms by (intro Split_first_slash) auto
  have 2: "Split_first ?sep (CHR ''/'' # ''api'' @ CHR ''/'' # ws @ ''/spaces/'' @ tok)
            = CHR ''/'' # ''api'' @ Split_first ?sep (CHR ''/'' # ws @ ''/spaces/'' @ tok)"
    by (intro Split_first_slash) auto
  have 3: "Split_first ?sep (CHR ''/'' # host @ CHR ''/'' # ''api/'' @ ws @ ''/spaces/'' @ tok)
            = CHR ''/'' # host @ Split_first ?sep (CHR ''/'' # ''api/'' @ ws @ ''/spaces/'' @ tok)"
    using assms by (intro Split_first_slash) auto
  have 4: "Split_first ?sep (''https:/'' @ CHR ''/'' # host @ ''/api/'' @ ws @ ''/spaces/'' @ tok)
            = ''https:/'' @ Split_first ?sep (CHR ''/'' # host @ ''/api/'' @ ws @ ''/spaces/'' @ tok)"
    by simp
  have 5: "Split_first ?sep (CHR ''/'' # ''spaces/'' @ tok) = []" by simp
  show ?thesis
    unfolding collections_url_def using 1 2 3 4 5 by simp
qed

section \<open>Properties of the deletion verifier\<close>

lemma poll_still_active:
  "still_active env (client_Do env n MethodGet url) \<Longrightarrow>
   poll env url \<lparr>issued = n, deferred = d, trace = t\<rparr> =
     (Continue, \<lparr>issued = Suc n, deferred = n # d, trace = t @ [Sent MethodGet url]\<rparr>)"
  by (auto simp: still_active_def poll_def StatusOK_def StatusNotFound_def StatusForbidden_def
      split: prod.splits option.splits sum.splits)

lemma poll_gone:
  "gone env (client_Do env n MethodGet url) \<Longrightarrow>
   poll env url \<lparr>issued = n, deferred = d, trace = t\<rparr> =
     (Return None, \<lparr>issued = Suc n, deferred = n # d, trace = t @ [Sent MethodGet url]\<rparr>)"
  by (auto simp: gone_def poll_def StatusOK_def StatusNotFound_def StatusForbidden_def
      split: prod.splits option.splits sum.splits)

lemma poll_other_status:
  "client_Do env n MethodGet url = (Some r, None) \<Longrightarrow>
   StatusCode r \<noteq> StatusOK \<Longrightarrow> StatusCode r \<noteq> StatusForbidden \<Longrightarrow>
   StatusCode r \<noteq> StatusNotFound \<Longrightarrow>
   poll env url \<lparr>issued = n, deferred = d, trace = t\<rparr> =
     (Return (Some (''unexpected status or state: '' @ Itoa (StatusCode r) @ '', not retrying'')),
      \<lparr>issued = Suc n, deferred = n # d, trace = t @ [Sent MethodGet url]\<rparr>)"
  by (simp add: poll_def)

lemma poll_forbidden:
  "client_Do env n MethodGet url = (Some r, None) \<Longrightarrow> StatusCode r = StatusForbidden \<Longrightarrow>
   poll env url \<lparr>issued = n, deferred = d, trace = t\<rparr> =
     forbidden env url r \<lparr>issued = Suc n, deferred = n # d, trace = t @ [Sent MethodGet url]\<rparr>"
  by (simp add: poll_def StatusForbidden_def StatusNotFound_def)

lemma CheckDeletion_loop_active:
  "\<forall>i<k. still_active env (client_Do env (n + i) MethodGet url) \<Longrightarrow>
   CheckDeletion_loop env url (replicate k TickFired @ sigs) \<lparr>issued = n, deferred = d, trace = t\<rparr> =
   CheckDeletion_loop env url sigs
     \<lparr>issued = n + k, deferred = rev [n..<n + k] @ d, trace = t @ polls url k\<rparr>"
proof (induction k arbitrary: n d t)
  case 0
  then show ?case by (simp add: polls_def)
next
  case (Suc k)
  have first: "still_active env (client_Do env n MethodGet url)"
    using Suc.prems by (metis add.right_neutral zero_less_Suc)
  have rest: "\<forall>i<k. still_active env (client_Do env (Suc n + i) MethodGet url)"
    using Suc.prems by (metis Suc_less_eq add_Suc_shift)
  have "rev [n..<n + Suc k] = rev [Suc n..<Suc n + k] @ [n]"
    by (simp add: upt_conv_Cons)
  then show ?case
    using Suc.IH[OF rest] poll_still_active[OF first]
    by (simp add: polls_def replicate_append_same)
qed

lemma still_active_answer:
  "still_active (scripted f) (answer code body) \<longleftrightarrow> code = 200 \<and> body \<noteq> ''soft_deleted''"
  by (simp add: still_active_def scripted_def answer_def StatusOK_def)

lemma gone_answer:
  "gone (scripted f) (answer code body) \<longleftrightarrow> code = 404 \<or> code = 200 \<and> body = ''soft_deleted''"
  by (simp add: gone_def scripted_def answer_def StatusOK_def StatusNotFound_def)

lemma client_Do_scripted: "client_Do (scripted f) n m u = f n u"
  by (simp add: scripted_def)

text \<open>
  The verifier does not wait for ever: once the timeout is among the signals, the run has
  ended (by returning or by a panic) at the latest when the timeout is received.
\<close>

lemma CheckDeletion_loop_returns_by_timeout:
  "TimeoutFired \<in> set sigs \<Longrightarrow> fst (CheckDeletion_loop env url sigs st) \<noteq> Blocked"
proof (induction sigs arbitrary: st)
  case Nil
  then show ?case by simp
next
  case (Cons s sigs)
  show ?case
  proof (cases s)
    case TimeoutFired
    then show ?thesis by (simp add: leave_def)
  next
    case CancelFired
    then show ?thesis using Cons by simp
  next
    case TickFired
    obtain stp st' where p: "poll env url st = (stp, st')" by (cases "poll env url st")
    show ?thesis
      using Cons TickFired p by (cases stp) (simp_all add: leave_def)
  qed
qed

lemma CheckDeletion_returns_by_timeout:
  "TimeoutFired \<in> set sigs \<Longrightarrow> fst (CheckDeletion env url sigs) \<noteq> Blocked"
  by (simp add: CheckDeletion_def CheckDeletion_loop_returns_by_timeout)

text \<open>
  Claim C3. While the polls answer 200 with a state other than \<open>soft_deleted\<close> the
  verifier keeps polling: after \<open>k\<close> such polls and no further signal it has not
  returned. On the first poll that answers 404, or 200 with state \<open>soft_deleted\<close>, it
  returns \<open>nil\<close>, having issued one request per tick and closing every body once.
\<close>

theorem CheckDeletion_confirms_when_gone:
  assumes "\<forall>i<k. still_active env (client_Do env i MethodGet url)"
    and "gone env (client_Do env k MethodGet url)"
  shows "CheckDeletion env url (replicate k TickFired @ TickFired # sigs)
           = (Returned None, polls url (Suc k) @ closes (Suc k))
         \<and> CheckDeletion env url (replicate k TickFired) = (Blocked, polls url k)"
proof -
  have a: "\<forall>i<k. still_active env (client_Do env (0 + i) MethodGet url)"
    using assms(1) by simp
  have "CheckDeletion env url (replicate k TickFired @ TickFired # sigs)
           = (Returned None, polls url (Suc k) @ closes (Suc k))"
    unfolding CheckDeletion_def CheckDeletion_loop_active[OF a]
    using poll_gone[of env k url] assms(2)
    by (simp add: leave_def polls_def closes_def replicate_append_same)
  moreover have "CheckDeletion env url (replicate k TickFired) = (Blocked, polls url k)"
    unfolding CheckDeletion_def
    using CheckDeletion_loop_active[OF a, of "[]"] by simp
  ultimately show ?thesis by simp
qed

text \<open>One poll that finds the resource active, then a poll that finds 404.\<close>

theorem CheckDeletion_confirms_when_gone_witness:
  "CheckDeletion (scripted active_then_404) ''https://host/api/ws1/groups/g1''
      [TickFired, TickFired, TimeoutFired]
     = (Returned None,
        [Sent ''GET'' ''https://host/api/ws1/groups/g1'',
         Sent ''GET'' ''https://host/api/ws1/groups/g1'', Closed 1, Closed 0])
   \<and> CheckDeletion (scripted active_then_404) ''https://host/api/ws1/groups/g1'' [TickFired]
     = (Blocked, [Sent ''GET'' ''https://host/api/ws1/groups/g1''])"
  using CheckDeletion_confirms_when_gone[of 1 "scripted active_then_404"
      "''https://host/api/ws1/groups/g1''" "[TimeoutFired]"]
  by (simp add: client_Do_scripted active_then_404_def still_active_answer gone_answer
      polls_def closes_def MethodGet_def)

text \<open>
  The code against the machine, poll by poll, with the code's own pattern match and the
  URL that the code builds as the parameters of the machine.
\<close>

lemma forbidden_refines:
  "forbidden env url r st = (stp, st') \<Longrightarrow> stp \<noteq> Panic \<Longrightarrow> MatchString_spaces_item url \<Longrightarrow>
   spec_secondary collections_url env url (issued st) = (state_of stp, issued st')"
  by (auto simp: forbidden_def spec_secondary_def Let_def
      split: option.splits prod.splits if_splits)

lemma forbidden_no_match:
  "forbidden env url r st = (stp, st') \<Longrightarrow> \<not> MatchString_spaces_item url \<Longrightarrow>
   state_of stp = Errored \<and> st' = st"
  by (auto simp: forbidden_def)

lemma forbidden_state:
  "forbidden env url r st = (stp, st') \<Longrightarrow> stp \<noteq> Panic \<Longrightarrow>
   (if MatchString_spaces_item url then spec_secondary collections_url env url (issued st)
    else (Errored, issued st)) = (state_of stp, issued st')"
  using forbidden_refines[of env url r st stp st'] forbidden_no_match[of env url r st stp st']
  by (cases "MatchString_spaces_item url") auto

lemma poll_refines:
  assumes "poll env url st = (stp, st')" and "stp \<noteq> Panic"
  shows "spec_tick MatchString_spaces_item collections_url env url (issued st)
     = (state_of stp, issued st')"
proof -
  obtain resp err where x: "client_Do env (issued st) MethodGet url = (resp, err)"
    by (cases "client_Do env (issued st) MethodGet url")
  show ?thesis
  proof (cases err)
    case (Some e)
    then show ?thesis using assms x
      by (auto simp: poll_def spec_tick_def Let_def split: option.splits)
  next
    case None
    show ?thesis
    proof (cases resp)
      case N: None
      then show ?thesis using assms x None by (auto simp: poll_def Let_def)
    next
      case (Some r)
      let ?st2 = "st\<lparr>issued := Suc (issued st), trace := trace st @ [Sent MethodGet url],
                     deferred := issued st # deferred st\<rparr>"
      consider (nf) "StatusCode r = StatusNotFound"
        | (fb) "StatusCode r = StatusForbidden"
        | (ok) "StatusCode r = StatusOK"
        | (other) "StatusCode r \<noteq> StatusNotFound" "StatusCode r \<noteq> StatusForbidden"
                  "StatusCode r \<noteq> StatusOK"
        by blast
      then show ?thesis
      proof cases
        case nf
        then show ?thesis using assms x None Some
          by (auto simp: poll_def spec_tick_def Let_def)
      next
        case fb
        then have "forbidden env url r ?st2 = (stp, st')"
          using assms x None Some
          by (simp add: poll_def Let_def StatusNotFound_def StatusForbidden_def)
        from forbidden_state[OF this assms(2)] show ?thesis
          using x None Some fb
          by (auto simp: spec_tick_def StatusNotFound_def StatusForbidden_def StatusOK_def
              split: if_splits)
      next
        case ok
        then show ?thesis using assms x None Some
          by (cases "Decode_state env (Body r)")
             (auto simp: poll_def spec_tick_def Let_def StatusNotFound_def StatusForbidden_def
               StatusOK_def split: if_splits)
      next
        case other
        then show ?thesis using assms x None Some
          by (auto simp: poll_def spec_tick_def Let_def)
      qed
    qed
  qed
qed

lemma CheckDeletion_loop_refines:
  "fst (CheckDeletion_loop env url sigs st) = Returned err \<Longrightarrow>
   (err = None \<longleftrightarrow>
      spec_verifier MatchString_spaces_item collections_url env url sigs (issued st)
        = ConfirmedDeleted)"
proof (induction sigs arbitrary: st)
  case Nil
  then show ?case by simp
next
  case (Cons s sigs)
  show ?case
  proof (cases s)
    case TimeoutFired
    then show ?thesis using Cons.prems by (auto simp: leave_def)
  next
    case CancelFired
    then show ?thesis using Cons by simp
  next
    case TickFired
    obtain stp st' where p: "poll env url st = (stp, st')" by (cases "poll env url st")
    show ?thesis
    proof (cases stp)
      case Panic
      then show ?thesis using Cons.prems TickFired p by (simp add: leave_def)
    next
      case Continue
      then have "spec_tick MatchString_spaces_item collections_url env url (issued st)
                   = (Polling, issued st')"
        using poll_refines[OF p] by simp
      then show ?thesis using Cons.IH[of st'] Cons.prems TickFired p Continue by simp
    next
      case (Return e)
      then have "spec_tick MatchString_spaces_item collections_url env url (issued st)
                   = (state_of (Return e), issued st')"
        using poll_refines[OF p] by simp
      moreover have "err = e" using Cons.prems TickFired p Return by (simp add: leave_def)
      ultimately show ?thesis using TickFired by (cases e) auto
    qed
  qed
qed

lemma spec_tick_still_active:
  "still_active env (client_Do env n MethodGet url) \<Longrightarrow>
   spec_tick item listing env url n = (Polling, Suc n)"
  by (auto simp: still_active_def spec_tick_def StatusOK_def StatusNotFound_def
      split: prod.splits option.splits sum.splits)

lemma spec_verifier_active:
  "\<forall>i<k. still_active env (client_Do env (n + i) MethodGet url) \<Longrightarrow>
   spec_verifier item listing env url (replicate k TickFired @ sigs) n
     = spec_verifier item listing env url sigs (n + k)"
proof (induction k arbitrary: n)
  case 0
  then show ?case by simp
next
  case (Suc k)
  have first: "still_active env (client_Do env n MethodGet url)"
    using Suc.prems by (metis add.right_neutral zero_less_Suc)
  have rest: "\<forall>i<k. still_active env (client_Do env (Suc n + i) MethodGet url)"
    using Suc.prems by (metis Suc_less_eq add_Suc_shift)
  show ?case
    using Suc.IH[OF rest] spec_tick_still_active[OF first, of item listing] by simp
qed

text \<open>
  If every poll before the timeout answers 200 with a state other than \<open>soft_deleted\<close>,
  the verifier returns the timeout error, and the machine of the specification is in
  \<open>TimedOut\<close>.
\<close>

lemma CheckDeletion_times_out:
  assumes "\<forall>i<k. still_active env (client_Do env i MethodGet url)"
  shows "CheckDeletion env url (replicate k TickFired @ TimeoutFired # sigs)
           = (Returned (Some timed_out), polls url k @ closes k)
         \<and> spec_verifier spec_item spec_parent_listing env url
              (replicate k TickFired @ TimeoutFired # sigs) 0 = TimedOut"
proof -
  have a: "\<forall>i<k. still_active env (client_Do env (0 + i) MethodGet url)"
    using assms(1) by simp
  have 1: "CheckDeletion env url (replicate k TickFired @ TimeoutFired # sigs)
           = (Returned (Some timed_out), polls url k @ closes k)"
    unfolding CheckDeletion_def CheckDeletion_loop_active[OF a]
    by (simp add: leave_def closes_def)
  have 2: "spec_verifier spec_item spec_parent_listing env url
              (replicate k TickFired @ TimeoutFired # sigs) 0 = TimedOut"
    unfolding spec_verifier_active[OF a] by simp
  show ?thesis using 1 2 by simp
qed

text \<open>
  Where the code's pattern and the URL it builds for the workaround agree with the
  specification's on the URL of the resource, a run that returns gives an error exactly
  when the machine of the specification has not reached \<open>ConfirmedDeleted\<close>. They agree
  on every item URL whose host and workspace are not called \<open>spaces\<close>.
\<close>

lemma spec_tick_cong_url:
  "item url = item' url \<Longrightarrow> (item url \<Longrightarrow> listing url = listing' url) \<Longrightarrow>
   spec_tick item listing env url n = spec_tick item' listing' env url n"
  by (cases "item url")
     (simp_all add: spec_tick_def spec_secondary_def
        cong: prod.case_cong option.case_cong if_cong)

lemma spec_verifier_cong_url:
  "item url = item' url \<Longrightarrow> (item url \<Longrightarrow> listing url = listing' url) \<Longrightarrow>
   spec_verifier item listing env url sigs n = spec_verifier item' listing' env url sigs n"
proof (induction sigs arbitrary: n)
  case Nil
  then show ?case by simp
next
  case (Cons s sigs)
  have t: "spec_tick item listing env url n = spec_tick item' listing' env url n"
    using Cons.prems by (rule spec_tick_cong_url)
  show ?case using Cons t
    by (cases s) (auto split: prod.splits verifier_state.splits)
qed

lemma last_segment_append:
  "CHR ''/'' \<notin> set tok \<Longrightarrow> last_segment (p @ CHR ''/'' # tok) = tok"
proof -
  assume a: "CHR ''/'' \<notin> set tok"
  then have "takeWhile (\<lambda>c. c \<noteq> CHR ''/'') (rev tok @ CHR ''/'' # rev p) = rev tok"
    by (induction tok rule: rev_induct) auto
  then show ?thesis by (simp add: last_segment_def)
qed

lemma before_last_segment_append:
  "CHR ''/'' \<notin> set tok \<Longrightarrow> before_last_segment (p @ CHR ''/'' # tok) = p @ ''/''"
proof -
  assume a: "CHR ''/'' \<notin> set tok"
  then have "dropWhile (\<lambda>c. c \<noteq> CHR ''/'') (rev tok @ CHR ''/'' # rev p) = CHR ''/'' # rev p"
    by (induction tok rule: rev_induct) auto
  then show ?thesis by (simp add: before_last_segment_def)
qed

lemma spec_side_of_item_url:
  assumes "tok \<noteq> []" "CHR ''/'' \<notin> set tok"
  shows "spec_item (p @ ''/spaces/'' @ tok)"
    and "spec_parent_listing (p @ ''/spaces/'' @ tok) = p @ ''/spaces?filter=all''"
proof -
  have e: "p @ ''/spaces/'' @ tok = (p @ ''/spaces'') @ CHR ''/'' # tok" by simp
  show "spec_item (p @ ''/spaces/'' @ tok)"
    unfolding spec_item_def e last_segment_append[OF assms(2)]
      before_last_segment_append[OF assms(2)]
    using assms(1) by (simp add: suffix_def)
  show "spec_parent_listing (p @ ''/spaces/'' @ tok) = p @ ''/spaces?filter=all''"
    unfolding spec_parent_listing_def e before_last_segment_append[OF assms(2)]
    by (simp add: butlast_append)
qed

lemma CheckDeletion_refines_where_urls_agree:
  assumes "MatchString_spaces_item url = spec_item url"
    and "spec_item url \<Longrightarrow> collections_url url = spec_parent_listing url"
    and "fst (CheckDeletion env url sigs) = Returned err"
  shows "err \<noteq> None \<longleftrightarrow>
           spec_verifier spec_item spec_parent_listing env url sigs 0 \<noteq> ConfirmedDeleted"
proof -
  have "spec_verifier MatchString_spaces_item collections_url env url sigs 0
      = spec_verifier spec_item spec_parent_listing env url sigs 0"
    using assms(1,2) by (intro spec_verifier_cong_url) simp_all
  then show ?thesis
    using CheckDeletion_loop_refines[of env url sigs _ err] assms(3)
    by (simp add: CheckDeletion_def)
qed

lemma urls_agree_on_ordinary_items:
  assumes "host \<noteq> []" "CHR ''/'' \<notin> set host" "host \<noteq> ''spaces''"
    and "ws \<noteq> []" "CHR ''/'' \<notin> set ws" "ws \<noteq> ''spaces''"
    and "tok \<noteq> []" "CHR ''/'' \<notin> set tok"
  shows "MatchString_spaces_item (''https://'' @ host @ ''/api/'' @ ws @ ''/spaces/'' @ tok)
           = spec_item (''https://'' @ host @ ''/api/'' @ ws @ ''/spaces/'' @ tok)"
    and "collections_url (''https://'' @ host @ ''/api/'' @ ws @ ''/spaces/'' @ tok)
           = spec_parent_listing (''https://'' @ host @ ''/api/'' @ ws @ ''/spaces/'' @ tok)"
proof -
  have m: "MatchString_spaces_item (''https://'' @ host @ ''/api/'' @ ws @ ''/spaces/'' @ tok)"
    unfolding MatchString_spaces_item_iff using assms by blast
  have s: "spec_item ((''https://'' @ host @ ''/api/'' @ ws) @ ''/spaces/'' @ tok)"
    "spec_parent_listing ((''https://'' @ host @ ''/api/'' @ ws) @ ''/spaces/'' @ tok)
       = (''https://'' @ host @ ''/api/'' @ ws) @ ''/spaces?filter=all''"
    using spec_side_of_item_url[OF assms(7,8)] by blast+
  show "MatchString_spaces_item (''https://'' @ host @ ''/api/'' @ ws @ ''/spaces/'' @ tok)
           = spec_item (''https://'' @ host @ ''/api/'' @ ws @ ''/spaces/'' @ tok)"
    using m s(1) by simp
  show "collections_url (''https://'' @ host @ ''/api/'' @ ws @ ''/spaces/'' @ tok)
           = spec_parent_listing (''https://'' @ host @ ''/api/'' @ ws @ ''/spaces/'' @ tok)"
    using collections_url_parent[OF assms(2,5,3,6), of tok] s(2) by simp
qed


text \<open>
  The branch for status 403. On a URL of the pattern the verifier sends one request to
  \<open>collections_url\<close> and returns \<open>nil\<close> exactly when that answers 200; on any other
  URL it returns an error without a second request.
\<close>

lemma CheckDeletion_forbidden_item:
  assumes "\<forall>i<k. still_active env (client_Do env i MethodGet url)"
    and "client_Do env k MethodGet url = (Some r, None)" "StatusCode r = StatusForbidden"
    and "MatchString_spaces_item url" "NewRequest env MethodGet (collections_url url) = None"
    and "client_Do env (Suc k) MethodGet (collections_url url) = (Some r2, None)"
  shows "CheckDeletion env url (replicate k TickFired @ TickFired # sigs)
           = (Returned (if StatusCode r2 = StatusOK then None
                        else Some (workaround_failed nil_error_s)),
              polls url (Suc k) @ Sent MethodGet (collections_url url) # closes (Suc (Suc k)))"
proof -
  have a: "\<forall>i<k. still_active env (client_Do env (0 + i) MethodGet url)"
    using assms(1) by simp
  show ?thesis
    unfolding CheckDeletion_def CheckDeletion_loop_active[OF a]
    using poll_forbidden[OF assms(2,3)] assms(4-6)
    by (simp add: forbidden_def leave_def polls_def closes_def replicate_append_same)
qed

lemma CheckDeletion_forbidden_other_url:
  assumes "\<forall>i<k. still_active env (client_Do env i MethodGet url)"
    and "client_Do env k MethodGet url = (Some r, None)" "StatusCode r = StatusForbidden"
    and "\<not> MatchString_spaces_item url"
  shows "CheckDeletion env url (replicate k TickFired @ TickFired # sigs)
           = (Returned (Some (''unexpected status: '' @ Itoa (StatusCode r) @ '', not retrying'')),
              polls url (Suc k) @ closes (Suc k))"
proof -
  have a: "\<forall>i<k. still_active env (client_Do env (0 + i) MethodGet url)"
    using assms(1) by simp
  show ?thesis
    unfolding CheckDeletion_def CheckDeletion_loop_active[OF a]
    using poll_forbidden[OF assms(2,3)] assms(4)
    by (simp add: forbidden_def leave_def polls_def closes_def replicate_append_same)
qed

text \<open>
  Claim C5, at a workspace called \<open>spaces\<close>. The URL of the collection matches the
  pattern and the poll answers 403. The listing of the workspace's collections is
  \<open>https://host/api/spaces/spaces?filter=all\<close> and would answer 200, but the verifier
  asks \<open>https://host/api/spaces?filter=all\<close>, because \<open>strings.Split\<close> cuts at the
  first \<open>/spaces/\<close>; that is not the listing, answers 404 here, and the verifier
  returns an error.
\<close>

theorem CheckDeletion_workspace_named_spaces:
  "MatchString_spaces_item ''https://host/api/spaces/spaces/tok1''
   \<and> client_Do (scripted workspace_named_spaces) 0 MethodGet
         ''https://host/api/spaces/spaces/tok1'' = answer 403 []
   \<and> client_Do (scripted workspace_named_spaces) 1 MethodGet
         ''https://host/api/spaces/spaces?filter=all'' = answer 200 []
   \<and> CheckDeletion (scripted workspace_named_spaces) ''https://host/api/spaces/spaces/tok1''
         [TickFired]
       = (Returned (Some (workaround_failed nil_error_s)),
          [Sent ''GET'' ''https://host/api/spaces/spaces/tok1'',
           Sent ''GET'' ''https://host/api/spaces?filter=all'', Closed 1, Closed 0])"
  by code_simp

text \<open>
  Claim C6. A poll that answers with a status other than 200, 403 and 404 ends the run on
  that tick with an error that names the status; no request follows, whatever signals
  are still to come.
\<close>

theorem CheckDeletion_other_status_is_error:
  assumes "\<forall>i<k. still_active env (client_Do env i MethodGet url)"
    and "client_Do env k MethodGet url = (Some r, None)"
    and "StatusCode r \<noteq> StatusOK" "StatusCode r \<noteq> StatusForbidden"
        "StatusCode r \<noteq> StatusNotFound"
  shows "CheckDeletion env url (replicate k TickFired @ TickFired # sigs)
           = (Returned (Some (''unexpected status or state: '' @ Itoa (StatusCode r)
                              @ '', not retrying'')),
              polls url (Suc k) @ closes (Suc k))"
proof -
  have a: "\<forall>i<k. still_active env (client_Do env (0 + i) MethodGet url)"
    using assms(1) by simp
  show ?thesis
    unfolding CheckDeletion_def CheckDeletion_loop_active[OF a]
    using poll_other_status[OF assms(2-5)]
    by (simp add: leave_def polls_def closes_def replicate_append_same)
qed

lemma Itoa_500: "Itoa 500 = ''500''"
  by code_simp

text \<open>An active poll, then a poll that answers 500; two more signals are never read.\<close>

theorem CheckDeletion_other_status_is_error_witness:
  "CheckDeletion (scripted active_then_500) ''https://host/api/ws1/groups/g1''
      [TickFired, TickFired, TickFired, TimeoutFired]
     = (Returned (Some ''unexpected status or state: 500, not retrying''),
        [Sent ''GET'' ''https://host/api/ws1/groups/g1'',
         Sent ''GET'' ''https://host/api/ws1/groups/g1'', Closed 1, Closed 0])"
proof -
  let ?env = "scripted active_then_500"
  let ?url = "''https://host/api/ws1/groups/g1''"
  let ?r = "\<lparr>StatusCode = 500, Body = []\<rparr> :: string Response"
  have a: "\<forall>i<1. still_active ?env (client_Do ?env i MethodGet ?url)"
    by (simp add: client_Do_scripted active_then_500_def still_active_answer)
  have b: "client_Do ?env 1 MethodGet ?url = (Some ?r, None)"
    by (simp add: client_Do_scripted active_then_500_def answer_def)
  have c: "StatusCode ?r \<noteq> StatusOK" "StatusCode ?r \<noteq> StatusForbidden"
      "StatusCode ?r \<noteq> StatusNotFound"
    by (simp_all add: StatusOK_def StatusForbidden_def StatusNotFound_def)
  have d: "Itoa (StatusCode ?r) = ''500''"
    using Itoa_500 by simp
  show ?thesis
    using CheckDeletion_other_status_is_error[OF a b c, of "[TickFired, TimeoutFired]"]
    unfolding d by (simp add: polls_def closes_def MethodGet_def)
qed

text \<open>
  Cancellation. The host cancels before the first tick; the verifier polls twice all the
  same and returns \<open>nil\<close>, not an error of cancellation.
\<close>

theorem CheckDeletion_after_cancel_polls_on:
  "CheckDeletion (scripted active_then_404) ''https://host/api/ws1/groups/g1''
      [CancelFired, TickFired, TickFired]
     = (Returned None,
        [Sent ''GET'' ''https://host/api/ws1/groups/g1'',
         Sent ''GET'' ''https://host/api/ws1/groups/g1'', Closed 1, Closed 0])"
  by code_simp

lemma CheckDeletion_loop_ignores_cancel:
  "CheckDeletion_loop env url (filter (\<lambda>s. s \<noteq> CancelFired) sigs) st
     = CheckDeletion_loop env url sigs st"
proof (induction sigs arbitrary: st)
  case Nil
  then show ?case by simp
next
  case (Cons s sigs)
  then show ?case
    by (cases s) (auto split: prod.splits step.splits)
qed

text \<open>
  Claim C7, as the code has it. \<open>CheckDeletion\<close> takes no context and its \<open>select\<close>
  has no case for cancellation: a run is the same run with the cancellations taken out of
  its signals, in result and in effects, so it ends only by a poll or by the timeout.
\<close>

theorem cancellation_is_not_observed:
  "CheckDeletion env url sigs = CheckDeletion env url (filter (\<lambda>s. s \<noteq> CancelFired) sigs)"
  by (simp add: CheckDeletion_def CheckDeletion_loop_ignores_cancel)


text \<open>
  The error of a workaround whose listing request was answered, with a status other than
  200: line 53 formats the error of the request, which is \<open>nil\<close> there.
\<close>

lemma CheckDeletion_failed_workaround_text:
  "fst (CheckDeletion (scripted workspace_named_spaces) ''https://host/api/spaces/spaces/tok1''
          [TickFired])
     = Returned (Some
         ''Unable to read collections during deletion verification, got error: %!s(<nil>)'')"
  by code_simp









section \<open>Properties of the resource handlers\<close>

text \<open>
  Claim C8, at a creating request that is answered with status 500. \<open>HttpRetry\<close> hands
  the handler a response, so the handler holds an open body; it returns on line 165 with
  a diagnostic, before the \<open>defer\<close> of line 167, and the body is never closed.
\<close>

theorem DataSourcePermission_Create_leaves_body_open:
  "DataSourcePermission_Create ''https://host'' ''ws1'' can_build answers_500 Inr permission_plan
     = Returned \<lparr>diagnostics = [(''Client Error'',
                      ''Two Unable to create data source permission, got error: '')],
                 change = Untouched, released = []\<rparr>"
  by code_simp

text \<open>
  A plan with the default access level \<open>restricted\<close>, against an upstream that keeps
  what it is sent. \<open>Create\<close> sends \<open>none\<close>; the state after \<open>Create\<close>, and after
  \<open>Read\<close> of the returned token, holds \<open>none\<close>, which is not the planned value.
\<close>

theorem Collection_Create_Read_default_access_level:
  "Collection_Create ''https://host'' ''ws1'' can_build
       (collection_server ''https://host'' ''ws1'' ''7'' ''active'' ''tok1''
          (Create_payload default_plan)) decoded default_plan
     = Returned \<lparr>diagnostics = [],
         change = Set (default_plan\<lparr>CollectionToken := StringValue ''tok1'',
                         State := StringValue ''active'', Id := StringValue ''7'',
                         DefaultAccessLevel := StringValue ''none''\<rparr>),
         released = [Closed 0]\<rparr>
   \<and> Collection_Read ''https://host'' ''ws1'' can_build
       (collection_server ''https://host'' ''ws1'' ''7'' ''active'' ''tok1''
          (Create_payload default_plan)) decoded
       (default_plan\<lparr>CollectionToken := StringValue ''tok1'',
                         State := StringValue ''active'', Id := StringValue ''7'',
                         DefaultAccessLevel := StringValue ''none''\<rparr>)
     = Returned \<lparr>diagnostics = [],
         change = Set (default_plan\<lparr>CollectionToken := StringValue ''tok1'',
                         State := StringValue ''active'', Id := StringValue ''7'',
                         DefaultAccessLevel := StringValue ''none''\<rparr>),
         released = [Closed 0]\<rparr>
   \<and> DefaultAccessLevel default_plan = StringValue ''restricted''
   \<and> DefaultAccessLevel (default_plan\<lparr>CollectionToken := StringValue ''tok1'',
                         State := StringValue ''active'', Id := StringValue ''7'',
                         DefaultAccessLevel := StringValue ''none''\<rparr>)
       \<noteq> DefaultAccessLevel default_plan"
  by code_simp

text \<open>
  Claim C9, as the code has it. Take an upstream that keeps what it is sent, and a plan
  whose configurable attributes are known. \<open>Create\<close> stores the plan with the token,
  identifier and state of the upstream, and with the access level \<open>none\<close> where the plan
  says \<open>restricted\<close>. \<open>Read\<close> of the returned token, on that state, stores the same
  state again, unless the upstream reports the state \<open>soft_deleted\<close>: then it removes
  the resource. So the two mappings compose to the identity on every planned attribute but
  an access level \<open>restricted\<close>.
\<close>

theorem Collection_Create_then_Read:
  assumes "Name plan = StringValue n" "CollectionType plan = StringValue t"
    and "Description plan = StringValue d" "Restricted plan = BoolValue r"
    and "FreeDefault plan = BoolValue f" "Viewable plan = BoolValue v"
    and "DefaultAccessLevel plan = StringValue a"
  shows "Collection_Create modeHost workspaceId can_build
           (collection_server modeHost workspaceId ident st tok (Create_payload plan))
           decoded plan
         = Returned \<lparr>diagnostics = [],
             change = Set (plan\<lparr>CollectionToken := StringValue tok, State := StringValue st,
                            Id := StringValue ident,
                            DefaultAccessLevel :=
                              StringValue (if a = ''restricted'' then ''none'' else a)\<rparr>),
             released = [Closed 0]\<rparr>
       \<and> Collection_Read modeHost workspaceId can_build
           (collection_server modeHost workspaceId ident st tok (Create_payload plan))
           decoded
           (plan\<lparr>CollectionToken := StringValue tok, State := StringValue st,
                  Id := StringValue ident,
                  DefaultAccessLevel :=
                    StringValue (if a = ''restricted'' then ''none'' else a)\<rparr>)
         = Returned \<lparr>diagnostics = [],
             change =
               (if st = ''soft_deleted'' then Removed
                else Set (plan\<lparr>CollectionToken := StringValue tok,
                            State := StringValue st, Id := StringValue ident,
                            DefaultAccessLevel :=
                              StringValue (if a = ''restricted'' then ''none'' else a)\<rparr>)),
             released = [Closed 0]\<rparr>"
proof -
  have p: "Create_payload plan =
             \<lparr>json_space_type = t, json_name = n, json_description = d, json_restricted = r,
              json_free_default = f, json_viewable = v,
              json_default_access_level = (if a = ''restricted'' then ''none'' else a)\<rparr>"
    using assms by (simp add: Create_payload_def)
  have m: "MethodGet \<noteq> MethodPost" by (simp add: MethodGet_def MethodPost_def)
  have c: "Collection_Create modeHost workspaceId can_build
           (collection_server modeHost workspaceId ident st tok (Create_payload plan))
           decoded plan
         = Returned \<lparr>diagnostics = [],
             change = Set (plan\<lparr>CollectionToken := StringValue tok, State := StringValue st,
                            Id := StringValue ident,
                            DefaultAccessLevel :=
                              StringValue (if a = ''restricted'' then ''none'' else a)\<rparr>),
             released = [Closed 0]\<rparr>"
    unfolding Collection_Create_def p
    using assms
    by (cases plan)
       (simp add: can_build_def collection_server_def decoded_def echo_def StatusOK_def)
  have r: "Collection_Read modeHost workspaceId can_build
           (collection_server modeHost workspaceId ident st tok (Create_payload plan))
           decoded
           (plan\<lparr>CollectionToken := StringValue tok, State := StringValue st,
                  Id := StringValue ident,
                  DefaultAccessLevel :=
                    StringValue (if a = ''restricted'' then ''none'' else a)\<rparr>)
         = Returned \<lparr>diagnostics = [],
             change =
               (if st = ''soft_deleted'' then Removed
                else Set (plan\<lparr>CollectionToken := StringValue tok,
                            State := StringValue st, Id := StringValue ident,
                            DefaultAccessLevel :=
                              StringValue (if a = ''restricted'' then ''none'' else a)\<rparr>)),
             released = [Closed 0]\<rparr>"
    unfolding Collection_Read_def p
    using assms m
    by (cases plan)
       (simp add: can_build_def collection_server_def decoded_def echo_def StatusOK_def)
  show ?thesis using c r by simp
qed

text \<open>
  The plan with the defaults of the schema, against an upstream that reports the state
  \<open>active\<close>, and against one that reports \<open>soft_deleted\<close>.
\<close>

theorem Collection_Create_then_Read_witness:
  "Collection_Create ''https://host'' ''ws1'' can_build
       (collection_server ''https://host'' ''ws1'' ''7'' ''active'' ''tok1''
          (Create_payload default_plan)) decoded default_plan
     = Returned \<lparr>diagnostics = [],
         change = Set (default_plan\<lparr>CollectionToken := StringValue ''tok1'',
                         State := StringValue ''active'', Id := StringValue ''7'',
                         DefaultAccessLevel := StringValue ''none''\<rparr>),
         released = [Closed 0]\<rparr>
   \<and> Collection_Read ''https://host'' ''ws1'' can_build
       (collection_server ''https://host'' ''ws1'' ''7'' ''soft_deleted'' ''tok1''
          (Create_payload default_plan)) decoded
       (default_plan\<lparr>CollectionToken := StringValue ''tok1'',
                         State := StringValue ''soft_deleted'', Id := StringValue ''7'',
                         DefaultAccessLevel := StringValue ''none''\<rparr>)
     = Returned \<lparr>diagnostics = [], change = Removed, released = [Closed 0]\<rparr>"
  using Collection_Create_then_Read[of default_plan "''Sales''" "''custom''" "[]" False False
      True "''restricted''" "''https://host''" "''ws1''" "''7''" "''active''" "''tok1''"]
    Collection_Create_then_Read[of default_plan "''Sales''" "''custom''" "[]" False False
      True "''restricted''" "''https://host''" "''ws1''" "''7''" "''soft_deleted''" "''tok1''"]
  by (simp add: default_plan_def)

end
